theory Spec2Isabelle
  imports Complex_Main "HOL-Library.Sublist" "HOL-Library.AList"
begin

section \<open>Python values, strings and exceptions\<close>

text \<open>
  A Python \<open>str\<close> is modelled as a \<^typ>\<open>string\<close>: a list of characters, each a code
  point below 256. Code points above 255 are outside the model. The test \<open>a in b\<close> on two
  strings is \<^const>\<open>sublist\<close>: \<open>b = ps @ a @ ss\<close> for some \<open>ps\<close> and \<open>ss\<close>.

  An exception is a value of \<open>py_error\<close>; a call that may raise returns
  \<open>py_error + 'a\<close>, with \<open>Inl\<close> for the exception. \<open>Raised msg\<close> stands for any other
  subclass of \<open>Exception\<close>, with the text \<open>str(e)\<close> gives for it.
\<close>

datatype py_error =
    NameError string
  | TypeError string
  | KeyError string
  | ValueError string
  | IndexError string
  | AttributeError string
  | Raised string

definition quote :: "string \<Rightarrow> string" where
  "quote s = [CHR 0x27] @ s @ [CHR 0x27]"

fun error_text :: "py_error \<Rightarrow> string" where
  "error_text (NameError n) = ''name '' @ quote n @ '' is not defined''"
| "error_text (TypeError m) = m"
| "error_text (KeyError k) = quote k"
| "error_text (ValueError m) = m"
| "error_text (IndexError m) = m"
| "error_text (AttributeError m) = m"
| "error_text (Raised m) = m"

text \<open>
  What a function does beyond returning: the prompts it sends to the external model
  (\<open>get_gemini_response\<close> of the module \<open>utils\<close>) and the lines it prints, in order.
\<close>

datatype event = ModelCall string | Printed string

text \<open>
  \<open>str.isspace\<close>, \<open>str.strip()\<close> and \<open>str.lower()\<close> on code points below 256: the
  whitespace characters are 9 to 13, 28 to 32, 133 and 160; the upper-case letters are
  \<open>A\<close> to \<open>Z\<close> and 192 to 222 without 215, each 32 below its lower-case letter.
\<close>

definition isspace :: "char \<Rightarrow> bool" where
  "isspace c =
     (let n = (of_char c :: nat)
      in (9 \<le> n \<and> n \<le> 13) \<or> (28 \<le> n \<and> n \<le> 32) \<or> n = 133 \<or> n = 160)"

definition strip :: "string \<Rightarrow> string" where
  "strip s = rev (dropWhile isspace (rev (dropWhile isspace s)))"

definition lower_char :: "char \<Rightarrow> char" where
  "lower_char c =
     (let n = (of_char c :: nat)
      in if (65 \<le> n \<and> n \<le> 90) \<or> (192 \<le> n \<and> n \<le> 222 \<and> n \<noteq> 215)
         then char_of (n + 32) else c)"

definition lower :: "string \<Rightarrow> string" where
  "lower s = map lower_char s"

text \<open>
  The values a conversation context may hold. \<open>PyObject cls\<close> is an object of a class
  that \<open>json\<close> does not encode (\<open>bytes\<close>, \<open>datetime\<close>, a dataclass); floats are not
  modelled. The parameter \<open>context: Dict = None\<close> is \<open>PyNone\<close> or a \<open>PyDict\<close>.
\<close>

datatype pyval =
    PyNone
  | PyBool bool
  | PyInt int
  | PyStr string
  | PyList "pyval list"
  | PyDict "(pyval \<times> pyval) list"
  | PyObject string

fun truthy :: "pyval \<Rightarrow> bool" where
  "truthy PyNone = False"
| "truthy (PyBool b) = b"
| "truthy (PyInt i) = (i \<noteq> 0)"
| "truthy (PyStr s) = (s \<noteq> [])"
| "truthy (PyList xs) = (xs \<noteq> [])"
| "truthy (PyDict kvs) = (kvs \<noteq> [])"
| "truthy (PyObject cls) = True"

fun type_name :: "pyval \<Rightarrow> string" where
  "type_name PyNone = ''NoneType''"
| "type_name (PyBool b) = ''bool''"
| "type_name (PyInt i) = ''int''"
| "type_name (PyStr s) = ''str''"
| "type_name (PyList xs) = ''list''"
| "type_name (PyDict kvs) = ''dict''"
| "type_name (PyObject cls) = cls"

subsection \<open>\<open>json.dumps\<close> with its default arguments\<close>

fun dec :: "nat \<Rightarrow> string" where
  "dec n = (if n < 10 then [char_of (48 + n)] else dec (n div 10) @ [char_of (48 + n mod 10)])"

definition str_int :: "int \<Rightarrow> string" where
  "str_int i = (if i < 0 then ''-'' @ dec (nat (- i)) else dec (nat i))"

definition hex_digit :: "nat \<Rightarrow> char" where
  "hex_digit d = (if d < 10 then char_of (48 + d) else char_of (87 + d))"

definition json_escape :: "char \<Rightarrow> string" where
  "json_escape c =
     (let n = (of_char c :: nat)
      in if n = 34 then [CHR 0x5C, CHR 0x22]
         else if n = 92 then [CHR 0x5C, CHR 0x5C]
         else if n = 10 then [CHR 0x5C, CHR ''n'']
         else if n = 13 then [CHR 0x5C, CHR ''r'']
         else if n = 9 then [CHR 0x5C, CHR ''t'']
         else if n = 8 then [CHR 0x5C, CHR ''b'']
         else if n = 12 then [CHR 0x5C, CHR ''f'']
         else if 32 \<le> n \<and> n \<le> 126 then [c]
         else [CHR 0x5C, CHR ''u'', CHR ''0'', CHR ''0'', hex_digit (n div 16), hex_digit (n mod 16)])"

definition json_str :: "string \<Rightarrow> string" where
  "json_str s = [CHR 0x22] @ concat (map json_escape s) @ [CHR 0x22]"

fun join :: "string \<Rightarrow> string list \<Rightarrow> string" where
  "join sep [] = []"
| "join sep [x] = x"
| "join sep (x # y # ys) = x @ sep @ join sep (y # ys)"

fun first_some :: "'a option list \<Rightarrow> 'a option" where
  "first_some [] = None"
| "first_some (None # xs) = first_some xs"
| "first_some (Some x # xs) = Some x"

fun key_problem :: "pyval \<Rightarrow> string option" where
  "key_problem (PyStr s) = None"
| "key_problem (PyInt i) = None"
| "key_problem (PyBool b) = None"
| "key_problem PyNone = None"
| "key_problem k = Some (''keys must be str, int, float, bool or None, not '' @ type_name k)"

fun key_text :: "pyval \<Rightarrow> string" where
  "key_text (PyStr s) = json_str s"
| "key_text (PyInt i) = json_str (str_int i)"
| "key_text (PyBool b) = json_str (if b then ''true'' else ''false'')"
| "key_text k = json_str ''null''"

text \<open>The message of the first \<open>TypeError\<close> the encoder meets, if it meets one.\<close>

fun json_problem :: "pyval \<Rightarrow> string option" where
  "json_problem (PyObject cls) =
     Some (''Object of type '' @ cls @ '' is not JSON serializable'')"
| "json_problem (PyList xs) = first_some (map json_problem xs)"
| "json_problem (PyDict kvs) =
     first_some (map (\<lambda>(k, v). case key_problem k of Some m \<Rightarrow> Some m | None \<Rightarrow> json_problem v) kvs)"
| "json_problem v = None"

fun json_text :: "pyval \<Rightarrow> string" where
  "json_text PyNone = ''null''"
| "json_text (PyBool b) = (if b then ''true'' else ''false'')"
| "json_text (PyInt i) = str_int i"
| "json_text (PyStr s) = json_str s"
| "json_text (PyList xs) = ''['' @ join '', '' (map json_text xs) @ '']''"
| "json_text (PyDict kvs) =
     ''{'' @ join '', '' (map (\<lambda>(k, v). key_text k @ '': '' @ json_text v) kvs) @ ''}''"
| "json_text (PyObject cls) = []"

definition json_dumps :: "pyval \<Rightarrow> py_error + string" where
  "json_dumps v =
     (case json_problem v of Some m \<Rightarrow> Inl (TypeError m) | None \<Rightarrow> Inr (json_text v))"

subsection \<open>Names of a module\<close>

text \<open>
  A name that a function body reads from its module is bound or not by the module's
  own statements. \<open>agent_router.py\<close> binds, by its imports and its two top-level
  statements, the names below; reading any other module-level name raises
  \<open>NameError\<close>.
\<close>

definition global_name :: "string list \<Rightarrow> string \<Rightarrow> py_error + unit" where
  "global_name globals n = (if n \<in> set globals then Inr () else Inl (NameError n))"

definition agent_router_globals :: "string list" where
  "agent_router_globals =
     [''re'', ''Dict'', ''List'', ''Tuple'', ''Optional'', ''json'', ''get_gemini_response'',
      ''AgentRouter'', ''_build_gemini_routing_prompt'']"

subsection \<open>Attributes of an object\<close>

text \<open>
  The parameter \<open>self\<close> of a method is an object: the name of its class and the
  names that resolve on it to the functions of the file. Reading \<open>self.f\<close> for any
  other name raises \<open>AttributeError\<close>. \<open>call_method self f result\<close> is the call
  \<open>self.f(...)\<close> from outside: the attribute is looked up first, and \<open>result\<close> is
  what the body of \<open>f\<close> gives.
\<close>

record obj =
  class_name :: string
  attributes :: "string list"

definition no_attribute :: "string \<Rightarrow> string \<Rightarrow> py_error" where
  "no_attribute cls n = AttributeError (quote cls @ '' object has no attribute '' @ quote n)"

definition getattr :: "obj \<Rightarrow> string \<Rightarrow> py_error + unit" where
  "getattr self n =
     (if n \<in> set (attributes self) then Inr () else Inl (no_attribute (class_name self) n))"

definition call_method :: "obj \<Rightarrow> string \<Rightarrow> py_error + 'a \<Rightarrow> py_error + 'a" where
  "call_method self n result = (case getattr self n of Inl e \<Rightarrow> Inl e | Inr u \<Rightarrow> result)"

section \<open>The router (\<open>agent_router.py\<close>)\<close>

text \<open>
  The body of \<open>class AgentRouter\<close> is lines 9 to 47: the docstring and \<open>route_request\<close>.
  The \<open>def\<close> of \<open>_build_gemini_routing_prompt\<close> on line 49 stands at column 0, which
  ends the class: it is a function of the module. The \<open>def\<close>s after its \<open>return\<close>
  (\<open>_fallback_route\<close>, \<open>generate_clarification_response\<close>, \<open>analyze_conversation_flow\<close>,
  \<open>_determine_conversation_type\<close>, \<open>get_routing_explanation\<close>) are indented into its
  body and never run. So \<open>AgentRouter()\<close> has one method.

  \<open>bound_router\<close> is an object on which every function name of the file resolves to the
  function the file writes under that name. No object is one as the file stands; it
  shows what the function bodies compute once they are reached.
\<close>

definition AgentRouter_instance :: obj where
  "AgentRouter_instance = \<lparr>class_name = ''AgentRouter'', attributes = [''route_request'']\<rparr>"

definition bound_router :: obj where
  "bound_router =
     \<lparr>class_name = ''AgentRouter'',
      attributes = [''route_request'', ''_build_gemini_routing_prompt'', ''_fallback_route'',
                    ''generate_clarification_response'', ''analyze_conversation_flow'',
                    ''_determine_conversation_type'', ''get_routing_explanation'']\<rparr>"

definition nl :: char where
  "nl = CHR 0x0A"

definition build_gemini_routing_prompt :: "string \<Rightarrow> pyval \<Rightarrow> py_error + string" where
  "build_gemini_routing_prompt text context =
     (let prompt = ''Analyze the following user query and determine if it is related to property issues or tenancy law/rental guidance. '' @ [nl]
      in case (if truthy context
               then (case global_name agent_router_globals ''json'' of
                       Inl e \<Rightarrow> Inl e
                     | Inr u \<Rightarrow>
                         (case json_dumps context of
                            Inl e \<Rightarrow> Inl e
                          | Inr dumped \<Rightarrow>
                              Inr (prompt @ ''Consider the following conversation context:'' @ [nl]
                                     @ dumped @ [nl, nl])))
               else Inr prompt) of
           Inl e \<Rightarrow> Inl e
         | Inr prompt \<Rightarrow>
             Inr (prompt @ ''User query: '' @ text @ [nl, nl]
                    @ ''Respond with only one word: 'issue' if it is related to property issues, 'tenancy' if it is related to tenancy law or rental guidance, or 'general' if it is neither or unclear.''))"

definition tenancy_keywords :: "string list" where
  "tenancy_keywords =
     [''landlord'', ''tenant'', ''rent'', ''deposit'', ''evict'', ''lease'', ''rights'', ''law'', ''legal'']"

definition issue_keywords :: "string list" where
  "issue_keywords =
     [''damage'', ''broken'', ''crack'', ''leak'', ''mold'', ''repair'', ''fix'', ''issue'']"

text \<open>\<open>sum(1 for keyword in keywords if keyword in text_lower)\<close>\<close>

definition tenancy_score :: "string \<Rightarrow> nat" where
  "tenancy_score text_lower =
     sum_list (map (\<lambda>keyword. 1) (filter (\<lambda>keyword. sublist keyword text_lower) tenancy_keywords))"

definition issue_score :: "string \<Rightarrow> nat" where
  "issue_score text_lower =
     sum_list (map (\<lambda>keyword. 1) (filter (\<lambda>keyword. sublist keyword text_lower) issue_keywords))"

definition fallback_route :: "string \<Rightarrow> bool \<Rightarrow> pyval \<Rightarrow> string" where
  "fallback_route text has_image context =
     (let text_lower = lower text
      in if has_image \<or> issue_score text_lower > tenancy_score text_lower then ''agent1''
         else if tenancy_score text_lower > issue_score text_lower then ''agent2''
         else ''router'')"

text \<open>
  \<open>route_request\<close>; \<open>gemini\<close> is \<open>utils.get_gemini_response\<close>, which answers a prompt
  with a string or raises. \<open>self._build_gemini_routing_prompt\<close> is read and the prompt is
  built on line 30, before the \<open>try\<close>; \<open>except Exception\<close> catches whatever the model
  call raises, and \<open>self._fallback_route\<close> is read inside the handler, after the
  \<open>print\<close>.
\<close>

definition route_request ::
  "obj \<Rightarrow> (string \<Rightarrow> py_error + string) \<Rightarrow> string \<Rightarrow> bool \<Rightarrow> pyval
     \<Rightarrow> (py_error + string) \<times> event list"
where
  "route_request self gemini text has_image context =
     (if has_image then (Inr ''agent1'', [])
      else case getattr self ''_build_gemini_routing_prompt'' of
             Inl e \<Rightarrow> (Inl e, [])
           | Inr u \<Rightarrow>
      (case build_gemini_routing_prompt text context of
             Inl e \<Rightarrow> (Inl e, [])
           | Inr prompt \<Rightarrow>
               (case gemini prompt of
                  Inr gemini_response \<Rightarrow>
                    (let routing_decision = lower (strip gemini_response)
                     in if sublist ''issue'' routing_decision then (Inr ''agent1'', [ModelCall prompt])
                        else if sublist ''tenancy'' routing_decision then (Inr ''agent2'', [ModelCall prompt])
                        else (Inr ''router'', [ModelCall prompt]))
                | Inl e \<Rightarrow>
                    (case getattr self ''_fallback_route'' of
                       Inl e' \<Rightarrow>
                         (Inl e',
                          [ModelCall prompt,
                           Printed (''Error calling Gemini API for routing: '' @ error_text e)])
                     | Inr u \<Rightarrow>
                         (Inr (fallback_route text has_image context),
                          [ModelCall prompt,
                           Printed (''Error calling Gemini API for routing: '' @ error_text e)])))))"

text \<open>
  \<open>generate_clarification_response\<close>. \<open>random.choice(seq)\<close> returns
  \<open>seq[randbelow(len(seq))]\<close>; \<open>r\<close> is the number the generator draws. The module
  never imports \<open>random\<close>.
\<close>

definition random_choice :: "nat \<Rightarrow> 'a list \<Rightarrow> py_error + 'a" where
  "random_choice r seq =
     (if seq = [] then Inl (IndexError ''Cannot choose from an empty sequence'')
      else Inr (seq ! (r mod length seq)))"

definition responses :: "string list" where
  "responses =
     [''I'm not sure if you need help with a property issue or a tenancy question. Can you please clarify?'',
      ''To assist you better, could you specify if your query is about a problem with a property or about rental/tenancy matters?'',
      ''Are you asking about a property issue or a question about tenancy laws? Please tell me more.'']"

definition generate_clarification_response ::
  "nat \<Rightarrow> string \<Rightarrow> pyval \<Rightarrow> (py_error + string \<times> real) \<times> event list"
where
  "generate_clarification_response r text context =
     (case global_name agent_router_globals ''random'' of
        Inl e \<Rightarrow> (Inl e, [])
      | Inr u \<Rightarrow>
          (case random_choice r responses of
             Inl e \<Rightarrow> (Inl e, [])
           | Inr chosen \<Rightarrow> (Inr (chosen, 1.0), [])))"

subsection \<open>\<open>analyze_conversation_flow\<close>\<close>

text \<open>
  A message is a dictionary; the function reads two of its keys. \<open>mtype\<close> is
  \<open>msg.get('type')\<close> and \<open>agent\<close> is \<open>msg.get('agent')\<close>, \<open>None\<close> when the key is
  missing or holds \<open>None\<close>, and otherwise a string. The dictionary \<open>agent_usage\<close> is a
  list of pairs in insertion order, as Python iterates it; the counts are natural
  numbers, since they start at 0 and only grow.
\<close>

record message =
  mtype :: "string option"
  agent :: "string option"

text \<open>\<open>msg.get('type') == 'bot' and msg.get('agent')\<close>\<close>

definition counted :: "message \<Rightarrow> bool" where
  "counted msg = (mtype msg = Some ''bot'' \<and> (case agent msg of None \<Rightarrow> False | Some a \<Rightarrow> a \<noteq> []))"

definition dict_get :: "(string \<times> nat) list \<Rightarrow> string \<Rightarrow> nat \<Rightarrow> nat" where
  "dict_get d k dflt = (case map_of d k of None \<Rightarrow> dflt | Some v \<Rightarrow> v)"

fun count_agents :: "(string \<times> nat) list \<Rightarrow> message list \<Rightarrow> (string \<times> nat) list" where
  "count_agents usage [] = usage"
| "count_agents usage (msg # messages) =
     count_agents
       (case agent msg of
          None \<Rightarrow> usage
        | Some a \<Rightarrow> if counted msg then AList.update a (dict_get usage a 0 + 1) usage else usage)
       messages"

text \<open>
  \<open>max(d, key=d.get)\<close> walks the keys in insertion order and keeps the one it holds
  unless the next is strictly greater; on an empty dictionary it raises.
\<close>

fun max_from :: "('a \<Rightarrow> nat) \<Rightarrow> 'a \<Rightarrow> 'a list \<Rightarrow> 'a" where
  "max_from key best [] = best"
| "max_from key best (x # xs) = max_from key (if key x > key best then x else best) xs"

definition max_key :: "(string \<times> nat) list \<Rightarrow> py_error + string" where
  "max_key d =
     (case d of
        [] \<Rightarrow> Inl (ValueError ''max() iterable argument is empty'')
      | item # items \<Rightarrow> Inr (fst (max_from snd item items)))"

definition determine_conversation_type :: "(string \<times> nat) list \<Rightarrow> py_error + string" where
  "determine_conversation_type usage =
     (case map_of usage ''agent1'' of
        None \<Rightarrow> Inl (KeyError ''agent1'')
      | Some a1 \<Rightarrow>
          (case map_of usage ''agent2'' of
             None \<Rightarrow> Inl (KeyError ''agent2'')
           | Some a2 \<Rightarrow>
               Inr (if a1 > a2 then ''issue_focused''
                    else if a2 > a1 then ''tenancy_focused''
                    else ''mixed'')))"

record analysis =
  agent_usage :: "(string \<times> nat) list"
  total_messages :: nat
  dominant_agent :: "string option"
  conversation_type :: string

text \<open>
  \<open>analyze_conversation_flow\<close>: the entries of the returned dictionary are evaluated in
  order, and \<open>self._determine_conversation_type\<close> is read only for a non-empty list.
\<close>

definition analyze_conversation_flow :: "obj \<Rightarrow> message list \<Rightarrow> py_error + analysis" where
  "analyze_conversation_flow self messages =
     (let usage = count_agents [(''agent1'', 0), (''agent2'', 0), (''router'', 0)] messages
      in case (if messages \<noteq> [] then map_sum id Some (max_key usage) else Inr None) of
           Inl e \<Rightarrow> Inl e
         | Inr dominant \<Rightarrow>
             (case (if messages \<noteq> []
                    then (case getattr self ''_determine_conversation_type'' of
                            Inl e \<Rightarrow> Inl e
                          | Inr u \<Rightarrow> determine_conversation_type usage)
                    else Inr ''empty'') of
                Inl e \<Rightarrow> Inl e
              | Inr flavour \<Rightarrow>
                  Inr \<lparr>agent_usage = usage, total_messages = length messages,
                       dominant_agent = dominant, conversation_type = flavour\<rparr>))"

section \<open>The tenancy agent (\<open>tenancy_faq_agent.py\<close>)\<close>

text \<open>
  The module imports \<open>random\<close>, four names of \<open>typing\<close>, \<open>re\<close> and
  \<open>get_gemini_response\<close>, and defines the class; it does not import \<open>json\<close>. The
  string literals of \<open>_build_gemini_prompt\<close> are broken across lines (lines 40 to 57),
  which Python refuses when it compiles the module; here a line break inside a literal is
  read as the newline character, so the definitions below say what the function bodies
  compute once the module loads.
\<close>

definition tenancy_faq_agent_globals :: "string list" where
  "tenancy_faq_agent_globals =
     [''random'', ''Dict'', ''List'', ''Tuple'', ''Optional'', ''re'', ''get_gemini_response'',
      ''TenancyFAQAgent'']"

definition build_gemini_prompt :: "string \<Rightarrow> string option \<Rightarrow> pyval \<Rightarrow> py_error + string" where
  "build_gemini_prompt text location context =
     (let prompt = ''You are a helpful AI assistant specializing in tenancy law and rental guidance. Provide comprehensive and accurate information based on the user's query.'' @ [nl, nl];
          prompt = (case location of
                      None \<Rightarrow> prompt
                    | Some place \<Rightarrow>
                        if place \<noteq> []
                        then prompt @ ''Consider the laws and regulations specific to '' @ place @ ''.'' @ [nl, nl]
                        else prompt)
      in case (if truthy context
               then (case global_name tenancy_faq_agent_globals ''json'' of
                       Inl e \<Rightarrow> Inl e
                     | Inr u \<Rightarrow>
                         (case json_dumps context of
                            Inl e \<Rightarrow> Inl e
                          | Inr dumped \<Rightarrow>
                              Inr (prompt @ ''Here is some recent conversation history for context:'' @ [nl]
                                     @ dumped @ [nl, nl])))
               else Inr prompt) of
           Inl e \<Rightarrow> Inl e
         | Inr prompt \<Rightarrow>
             Inr (prompt @ ''User query: '' @ text @ [nl, nl]
                    @ ''Please provide a detailed response covering the relevant legal aspects, tenant rights, landlord responsibilities, and recommended next steps. Format your response clearly with headings and bullet points.''))"

definition parse_gemini_response :: "string \<Rightarrow> string \<times> real" where
  "parse_gemini_response response = (response, 0.8)"

definition apology :: string where
  "apology = ''Sorry, I couldn't process your request at the moment. Please try again later.''"

text \<open>
  \<open>TenancyFAQAgent.process_request\<close>: the prompt is built before the \<open>try\<close>, the model
  call and the parse stand inside it.
\<close>

definition process_request ::
  "(string \<Rightarrow> py_error + string) \<Rightarrow> string \<Rightarrow> string option \<Rightarrow> pyval
     \<Rightarrow> (py_error + string \<times> real) \<times> event list"
where
  "process_request gemini text location context =
     (case build_gemini_prompt text location context of
        Inl e \<Rightarrow> (Inl e, [])
      | Inr prompt \<Rightarrow>
          (case gemini prompt of
             Inr gemini_response \<Rightarrow> (Inr (parse_gemini_response gemini_response), [ModelCall prompt])
           | Inl e \<Rightarrow>
               (Inr (apology, 0.0),
                [ModelCall prompt, Printed (''Error calling Gemini API: '' @ error_text e)])))"

section \<open>The issue agent's follow-up questions (\<open>issue_detection_agent.py\<close>)\<close>

text \<open>
  The string literals of the two prompt builders of this module are broken across lines
  too (lines 47 to 77), so Python refuses to compile it and \<open>IssueDetectionAgent\<close> cannot
  be imported as the file stands. \<open>get_follow_up_questions\<close> below is the body of the
  method as the file writes it.
\<close>

definition questions_db :: "(string \<times> string list) list" where
  "questions_db =
     [(''water_damage'',
         [''Is the water damage still actively spreading?'',
          ''Can you locate the source of the water?'',
          ''Is there a musty odor in the area?'',
          ''How long has this damage been present?'']),
      (''structural_damage'',
         [''Are the cracks getting larger over time?'',
          ''Do doors or windows stick in this area?'',
          ''Is the crack wider than a coin?'',
          ''Are there multiple cracks in the same area?'']),
      (''mold_growth'',
         [''What color is the growth you're seeing?'',
          ''Is there a musty smell in the room?'',
          ''Is the area frequently damp or humid?'',
          ''How large is the affected area?'']),
      (''electrical_issues'',
         [''Are circuit breakers tripping frequently?'',
          ''Do you smell burning or see sparks?'',
          ''Are outlets warm to the touch?'',
          ''Do lights flicker when appliances turn on?'']),
      (''plumbing_issues'',
         [''Is water pressure affected throughout the house?'',
          ''Can you hear water running when all taps are off?'',
          ''Is the issue getting worse over time?'',
          ''Are multiple fixtures affected?'']),
      (''cosmetic_damage'',
         [''Is the damage affecting the underlying material?'',
          ''How large is the affected area?'',
          ''Is the damage spreading or stable?'',
          ''Do you know what caused the damage?''])]"

text \<open>The default of \<open>questions_db.get\<close> and the list that \<open>extend\<close> appends.\<close>

definition generic_questions :: "string list" where
  "generic_questions =
     [''Can you describe the issue in more detail?'',
      ''When did you first notice this problem?'',
      ''Has the issue changed or worsened recently?'']"

definition severe_questions :: "string list" where
  "severe_questions =
     [''Do you need emergency professional assistance?'',
      ''Is the issue affecting other areas of the property?'',
      ''Are there any safety concerns for occupants?'']"

definition get_follow_up_questions :: "string \<Rightarrow> string \<Rightarrow> string list" where
  "get_follow_up_questions issue_type severity =
     (let base_questions = (case map_of questions_db issue_type of
                              None \<Rightarrow> generic_questions
                            | Some questions \<Rightarrow> questions);
          base_questions = (if severity = ''severe'' then base_questions @ severe_questions
                            else base_questions)
      in take 5 base_questions)"

section \<open>Strings: stripping, lower-casing and substrings\<close>

lemma isspace_lower_char: "isspace (lower_char c) = isspace c"
  by (auto simp: isspace_def lower_char_def Let_def)

lemma dropWhile_isspace_lower: "dropWhile isspace (lower s) = lower (dropWhile isspace s)"
  by (induction s) (auto simp: lower_def isspace_lower_char)

lemma lower_rev: "lower (rev s) = rev (lower s)"
  by (simp add: lower_def rev_map)

lemma lower_strip: "lower (strip s) = strip (lower s)"
  by (simp add: strip_def lower_rev dropWhile_isspace_lower flip: lower_rev)

lemma dropWhile_keeps:
  assumes "p \<noteq> []" "\<not> P (hd p)"
  shows "\<exists>ps'. dropWhile P (ps @ p @ ss) = ps' @ p @ ss"
proof (induction ps)
  case Nil
  from assms have "dropWhile P (p @ ss) = p @ ss" by (cases p) auto
  then show ?case by (intro exI[of _ "[]"]) simp
next
  case (Cons a ps)
  then show ?case by (cases "P a") (auto intro: exI[of _ "a # ps"])
qed

text \<open>A word that neither starts nor ends with whitespace is in a string exactly when it
  is in the stripped string.\<close>

lemma sublist_strip:
  assumes "p \<noteq> []" "\<not> isspace (hd p)" "\<not> isspace (last p)"
  shows "sublist p (strip s) = sublist p s"
proof
  assume "sublist p (strip s)"
  moreover have "sublist (strip s) s"
  proof -
    have "suffix (dropWhile isspace s) s" by (rule suffix_dropWhile)
    moreover have "prefix (strip s) (dropWhile isspace s)"
      unfolding strip_def by (metis suffix_dropWhile suffix_to_prefix rev_rev_ident)
    ultimately show ?thesis
      by (meson prefix_imp_sublist suffix_imp_sublist sublist_order.order_trans)
  qed
  ultimately show "sublist p s" by (rule sublist_order.order_trans)
next
  assume "sublist p s"
  then obtain ps ss where s: "s = ps @ p @ ss" by (auto simp: sublist_def)
  from dropWhile_keeps[of p isspace ps ss] assms obtain ps' where
    d: "dropWhile isspace s = ps' @ p @ ss" unfolding s by blast
  have rp: "rev p \<noteq> []" "\<not> isspace (hd (rev p))" using assms by (simp_all add: hd_rev)
  have "rev (dropWhile isspace s) = rev ss @ rev p @ rev ps'" by (simp add: d)
  with dropWhile_keeps[of "rev p" isspace "rev ss" "rev ps'"] rp obtain q where
    "dropWhile isspace (rev (dropWhile isspace s)) = q @ rev p @ rev ps'" by auto
  then have "strip s = ps' @ p @ rev q" by (simp add: strip_def)
  then show "sublist p (strip s)" by (auto simp: sublist_def)
qed

lemma issue_decision: "sublist ''issue'' (lower (strip r)) = sublist ''issue'' (lower r)"
  by (simp add: lower_strip sublist_strip isspace_def)

lemma tenancy_decision: "sublist ''tenancy'' (lower (strip r)) = sublist ''tenancy'' (lower r)"
  by (simp add: lower_strip sublist_strip isspace_def)

lemma sum_ones: "sum_list (map (\<lambda>x. 1) xs) = length xs"
  by (induction xs) auto

lemma length_filter_card: "distinct xs \<Longrightarrow> length (filter P xs) = card {x \<in> set xs. P x}"
proof -
  assume "distinct xs"
  then have "distinct (filter P xs)" by simp
  then have "card (set (filter P xs)) = length (filter P xs)" by (rule distinct_card)
  then show ?thesis by simp
qed

section \<open>The router as shipped\<close>

lemma getattr_bound_router:
  "getattr bound_router ''_build_gemini_routing_prompt'' = Inr ()"
  "getattr bound_router ''_fallback_route'' = Inr ()"
  "getattr bound_router ''_determine_conversation_type'' = Inr ()"
  by (simp_all add: getattr_def bound_router_def)

text \<open>
  C1. With \<open>has_image\<close> true, \<open>route_request\<close> returns \<open>'agent1'\<close> at once, for every
  object, text and context: no attribute is read, no prompt is built, the external model
  is not called (the list of events is empty), and what the model would answer or raise
  plays no part.
\<close>

theorem route_request_image:
  "route_request self gemini text True context = (Inr ''agent1'', [])"
  by (simp add: route_request_def)

text \<open>
  C2. The claim: without an image, when the model call raises, \<open>route_request\<close> returns
  the keyword decision and no exception reaches the caller. The code reads
  \<open>self._build_gemini_routing_prompt\<close> and builds the prompt before the \<open>try\<close>. On
  \<open>AgentRouter()\<close> the name does not resolve, and \<open>AttributeError\<close> leaves
  \<open>route_request\<close>. On an object on which the names resolve, a context that holds a
  \<open>bytes\<close> value makes \<open>json.dumps\<close> raise \<open>TypeError\<close>, which leaves \<open>route_request\<close>
  as well. In both cases the model is never called and the fallback never runs.
\<close>

theorem route_request_context_raises:
  "route_request AgentRouter_instance gemini ''The tap is broken'' False
       (PyDict [(PyStr ''image'', PyObject ''bytes'')])
     = (Inl (no_attribute ''AgentRouter'' ''_build_gemini_routing_prompt''), [])
   \<and> route_request bound_router gemini ''The tap is broken'' False
       (PyDict [(PyStr ''image'', PyObject ''bytes'')])
     = (Inl (TypeError ''Object of type bytes is not JSON serializable''), [])"
  by (simp add: route_request_def getattr_def AgentRouter_instance_def bound_router_def
      build_gemini_routing_prompt_def global_name_def agent_router_globals_def json_dumps_def)

text \<open>
  C3. The claim: the label is read from the lower-cased answer of the model. On
  \<open>AgentRouter()\<close> no answer is ever read: for every text and context without an image,
  and whatever the model would answer, line 30 raises \<open>AttributeError\<close> before the model
  is called.
\<close>

theorem route_request_reads_no_answer:
  "route_request AgentRouter_instance (\<lambda>prompt. Inr gemini_response) text False context
     = (Inl (no_attribute ''AgentRouter'' ''_build_gemini_routing_prompt''), [])"
  by (simp add: route_request_def getattr_def AgentRouter_instance_def)

text \<open>
  C4. The claim: the keyword scorer returns the two counts for every text. The scores are
  computed in \<open>_fallback_route\<close> alone. \<open>AgentRouter()\<close> has no such attribute, so the
  call \<open>_fallback_route('Broken pipe and a LEAK', False, None)\<close> raises
  \<open>AttributeError\<close>; and \<open>route_request\<close>, whose handler is the only caller, raises on
  line 30 before the model can fail. No score is computed.
\<close>

theorem fallback_route_not_reached:
  "call_method AgentRouter_instance ''_fallback_route''
       (Inr (fallback_route ''Broken pipe and a LEAK'' False PyNone))
     = Inl (no_attribute ''AgentRouter'' ''_fallback_route'')
   \<and> route_request AgentRouter_instance (\<lambda>prompt. Inl e) ''Broken pipe and a LEAK'' False PyNone
     = (Inl (no_attribute ''AgentRouter'' ''_build_gemini_routing_prompt''), [])"
  by (simp add: call_method_def route_request_def getattr_def AgentRouter_instance_def)

text \<open>
  C5. The claim: for a non-empty list the analysis names the handler with the most turns.
  \<open>AgentRouter()\<close> has no attribute \<open>analyze_conversation_flow\<close>: for a log of two issue
  turns and one tenancy turn the call raises \<open>AttributeError\<close> and names no handler.
\<close>

theorem analyze_conversation_flow_no_dominant:
  "call_method AgentRouter_instance ''analyze_conversation_flow''
       (analyze_conversation_flow AgentRouter_instance
          [\<lparr>mtype = Some ''bot'', agent = Some ''agent1''\<rparr>,
           \<lparr>mtype = Some ''bot'', agent = Some ''agent1''\<rparr>,
           \<lparr>mtype = Some ''bot'', agent = Some ''agent2''\<rparr>])
     = Inl (no_attribute ''AgentRouter'' ''analyze_conversation_flow'')"
  by (simp add: call_method_def getattr_def AgentRouter_instance_def)

text \<open>
  C6. The claim: the flavour follows from the issue count and the tenancy count. On
  \<open>AgentRouter()\<close> the call raises \<open>AttributeError\<close> for a log of one issue turn, where
  the claim says \<open>issue_focused\<close>; no flavour is returned.
\<close>

theorem analyze_conversation_flow_no_flavour:
  "call_method AgentRouter_instance ''analyze_conversation_flow''
       (analyze_conversation_flow AgentRouter_instance
          [\<lparr>mtype = Some ''bot'', agent = Some ''agent1''\<rparr>])
     = Inl (no_attribute ''AgentRouter'' ''analyze_conversation_flow'')"
  by (simp add: call_method_def getattr_def AgentRouter_instance_def)

text \<open>
  C10. The claim: for a non-empty list without counted turns the analysis returns the
  first key as dominant handler and the flavour \<open>mixed\<close>. On \<open>AgentRouter()\<close> the call
  raises \<open>AttributeError\<close> for a user turn followed by a bot turn without an agent;
  nothing is returned.
\<close>

theorem analyze_conversation_flow_uncounted_raises:
  "call_method AgentRouter_instance ''analyze_conversation_flow''
       (analyze_conversation_flow AgentRouter_instance
          [\<lparr>mtype = Some ''user'', agent = None\<rparr>, \<lparr>mtype = Some ''bot'', agent = None\<rparr>])
     = Inl (no_attribute ''AgentRouter'' ''analyze_conversation_flow'')"
  by (simp add: call_method_def getattr_def AgentRouter_instance_def)

text \<open>
  C9. The claim: \<open>generate_clarification_response\<close> returns one of its three prompts with
  confidence 1.0. The code reads \<open>random.choice\<close>, and \<open>agent_router.py\<close> never imports
  \<open>random\<close>: every call raises \<open>NameError\<close>. The model is not called.
\<close>

theorem generate_clarification_response_raises:
  "generate_clarification_response r text context = (Inl (NameError ''random''), [])"
  by (simp add: generate_clarification_response_def global_name_def agent_router_globals_def)

section \<open>The bodies of the router's functions\<close>

text \<open>
  What the function bodies compute on an object on which the names they read resolve.
  The hypotheses on \<open>getattr\<close> do not hold of \<open>AgentRouter()\<close> as the file stands.

  The decision read from an answer: when the prompt is built and the model answers, the
  result is \<open>'agent1'\<close> if the lower-cased answer contains \<open>issue\<close>, else \<open>'agent2'\<close> if it
  contains \<open>tenancy\<close>, else \<open>'router'\<close>. The answer is stripped before it is
  lower-cased, which changes neither test.
\<close>

theorem route_request_label:
  assumes "getattr self ''_build_gemini_routing_prompt'' = Inr ()"
    and "build_gemini_routing_prompt text context = Inr prompt"
    and "gemini prompt = Inr gemini_response"
  shows "route_request self gemini text False context =
           (Inr (if sublist ''issue'' (lower gemini_response) then ''agent1''
                 else if sublist ''tenancy'' (lower gemini_response) then ''agent2''
                 else ''router''),
            [ModelCall prompt])"
  using assms by (simp add: route_request_def Let_def issue_decision tenancy_decision)

text \<open>An answer in capitals with both words: without the lower-casing neither word is found.\<close>

theorem route_request_label_witness:
  "\<not> sublist ''issue'' ''A TENANCY ISSUE''
   \<and> \<not> sublist ''tenancy'' ''A TENANCY ISSUE''
   \<and> fst (route_request bound_router (\<lambda>prompt. Inr ''A TENANCY ISSUE'')
            ''Who pays for it?'' False PyNone) = Inr ''agent1''"
proof -
  obtain prompt where b: "build_gemini_routing_prompt ''Who pays for it?'' PyNone = Inr prompt"
    by (simp add: build_gemini_routing_prompt_def)
  have g: "(\<lambda>prompt. Inr ''A TENANCY ISSUE'') prompt = (Inr ''A TENANCY ISSUE'' :: py_error + string)"
    by simp
  have i: "sublist ''issue'' (lower ''A TENANCY ISSUE'')"
    by code_simp
  have n1: "\<not> sublist ''issue'' ''A TENANCY ISSUE''"
    by code_simp
  have n2: "\<not> sublist ''tenancy'' ''A TENANCY ISSUE''"
    by code_simp
  from route_request_label[OF getattr_bound_router(1) b g] i n1 n2 show ?thesis by simp
qed

text \<open>
  The fallback: when the prompt is built and the model call raises, \<open>route_request\<close>
  prints the error and returns the keyword decision: \<open>'agent1'\<close> if the issue score
  exceeds the tenancy score, \<open>'agent2'\<close> if the tenancy score exceeds the issue score,
  and \<open>'router'\<close> otherwise.
\<close>

theorem route_request_fallback:
  assumes "getattr self ''_build_gemini_routing_prompt'' = Inr ()"
    and "getattr self ''_fallback_route'' = Inr ()"
    and "build_gemini_routing_prompt text context = Inr prompt"
    and "gemini prompt = Inl e"
  shows "route_request self gemini text False context =
           (Inr (if issue_score (lower text) > tenancy_score (lower text) then ''agent1''
                 else if tenancy_score (lower text) > issue_score (lower text) then ''agent2''
                 else ''router''),
            [ModelCall prompt, Printed (''Error calling Gemini API for routing: '' @ error_text e)])"
  using assms by (simp add: route_request_def fallback_route_def Let_def)

lemma fallback_example_scores:
  "issue_score (lower ''My landlord will not fix the leak'') = 2
   \<and> tenancy_score (lower ''My landlord will not fix the leak'') = 1"
  by code_simp

theorem route_request_fallback_witness:
  "fst (route_request bound_router (\<lambda>prompt. Inl (Raised ''timeout''))
          ''My landlord will not fix the leak'' False PyNone) = Inr ''agent1''"
proof -
  obtain prompt where
    b: "build_gemini_routing_prompt ''My landlord will not fix the leak'' PyNone = Inr prompt"
    by (simp add: build_gemini_routing_prompt_def)
  have g: "(\<lambda>prompt. Inl (Raised ''timeout'')) prompt = (Inl (Raised ''timeout'') :: py_error + string)"
    by simp
  from route_request_fallback[OF getattr_bound_router(1) getattr_bound_router(2) b g]
    fallback_example_scores
  show ?thesis by simp
qed

lemma distinct_issue_keywords: "distinct issue_keywords"
  by (simp add: issue_keywords_def)

lemma distinct_tenancy_keywords: "distinct tenancy_keywords"
  by (simp add: tenancy_keywords_def)

lemma issue_score_card:
  "issue_score t = card {keyword \<in> set issue_keywords. sublist keyword t}"
  unfolding issue_score_def sum_ones by (rule length_filter_card[OF distinct_issue_keywords])

lemma tenancy_score_card:
  "tenancy_score t = card {keyword \<in> set tenancy_keywords. sublist keyword t}"
  unfolding tenancy_score_def sum_ones by (rule length_filter_card[OF distinct_tenancy_keywords])

lemma issue_score_example: "issue_score (lower ''Broken pipe and a LEAK'') = 2"
  by code_simp

lemma tenancy_score_example: "tenancy_score (lower ''Broken pipe and a LEAK'') = 0"
  by code_simp

text \<open>
  The two sums of \<open>_fallback_route\<close>: \<open>issue_score\<close> is the number of issue keywords that
  occur in the lower-cased text and \<open>tenancy_score\<close> the number of tenancy keywords that
  do; a keyword counts once however often it occurs. Both are 0 on the empty string; on
  \<open>Broken pipe and a LEAK\<close> they are 2 and 0.
\<close>

theorem keyword_scores:
  "issue_score (lower text) = card {keyword \<in> set issue_keywords. sublist keyword (lower text)}
   \<and> tenancy_score (lower text) = card {keyword \<in> set tenancy_keywords. sublist keyword (lower text)}
   \<and> issue_score (lower []) = 0 \<and> tenancy_score (lower []) = 0
   \<and> issue_score (lower ''Broken pipe and a LEAK'') = 2
   \<and> tenancy_score (lower ''Broken pipe and a LEAK'') = 0"
proof -
  have "issue_score (lower []) = 0"
    by (simp add: issue_score_def issue_keywords_def lower_def)
  moreover have "tenancy_score (lower []) = 0"
    by (simp add: tenancy_score_def tenancy_keywords_def lower_def)
  ultimately show ?thesis
    using issue_score_card[of "lower text"] tenancy_score_card[of "lower text"]
      issue_score_example tenancy_score_example
    by simp
qed

text \<open>
  What \<open>random.choice\<close> would pick from the three clarification prompts, were the name
  bound: one of the three, whatever number is drawn.
\<close>

theorem random_choice_responses:
  "\<exists>chosen. random_choice r responses = Inr chosen \<and> chosen \<in> set responses
     \<and> length responses = 3"
proof -
  have n: "length responses = 3" by (simp add: responses_def)
  then have "r mod length responses < length responses" by simp
  then have m: "responses ! (r mod length responses) \<in> set responses" by (rule nth_mem)
  have "responses \<noteq> []" using n by auto
  then have "random_choice r responses = Inr (responses ! (r mod length responses))"
    by (simp add: random_choice_def)
  with m n show ?thesis by blast
qed

section \<open>The body of the analytics\<close>

lemma count_agents_map_of:
  "map_of (count_agents usage messages) k =
     (if length (filter (\<lambda>m. counted m \<and> agent m = Some k) messages) = 0 then map_of usage k
      else Some (dict_get usage k 0 + length (filter (\<lambda>m. counted m \<and> agent m = Some k) messages)))"
proof (induction messages arbitrary: usage)
  case Nil
  then show ?case by simp
next
  case (Cons msg messages)
  show ?case
    by (cases "agent msg")
      (auto simp: Cons.IH update_conv' dict_get_def counted_def split: option.splits)
qed

lemma count_agents_keys:
  "\<exists>extra. map fst (count_agents usage messages) = map fst usage @ extra"
proof (induction messages arbitrary: usage)
  case Nil
  then show ?case by simp
next
  case (Cons msg messages)
  show ?case
  proof (cases "agent msg")
    case None
    then show ?thesis using Cons.IH[of usage] by simp
  next
    case (Some a)
    show ?thesis
    proof (cases "counted msg")
      case True
      from Cons.IH[of "AList.update a (dict_get usage a 0 + 1) usage"]
      obtain extra where
        "map fst (count_agents (AList.update a (dict_get usage a 0 + 1) usage) messages)
           = map fst (AList.update a (dict_get usage a 0 + 1) usage) @ extra"
        by blast
      then show ?thesis using Some True by (auto simp: update_keys)
    next
      case False
      then show ?thesis using Cons.IH[of usage] Some by simp
    qed
  qed
qed

lemma count_agents_distinct:
  "distinct (map fst usage) \<Longrightarrow> distinct (map fst (count_agents usage messages))"
  by (induction messages arbitrary: usage) (auto simp: distinct_update split: option.splits)

lemma count_agents_uncounted:
  "\<forall>m \<in> set messages. \<not> counted m \<Longrightarrow> count_agents usage messages = usage"
  by (induction messages arbitrary: usage) (auto split: option.splits)

text \<open>
  The walk of \<open>max\<close>: when \<open>best\<close> is the first maximum of the part already seen, the
  result is the first maximum of the whole.
\<close>

lemma max_from_first_max:
  assumes "i < length pre" "best = pre ! i"
    "\<forall>j<length pre. key (pre ! j) \<le> key (pre ! i)"
    "\<forall>j<i. key (pre ! j) < key (pre ! i)"
  shows "\<exists>i'<length (pre @ xs). max_from key best xs = (pre @ xs) ! i'
     \<and> (\<forall>j<length (pre @ xs). key ((pre @ xs) ! j) \<le> key ((pre @ xs) ! i'))
     \<and> (\<forall>j<i'. key ((pre @ xs) ! j) < key ((pre @ xs) ! i'))"
  using assms
proof (induction xs arbitrary: pre best i)
  case Nil
  then show ?case by auto
next
  case (Cons x xs)
  show ?case
  proof (cases "key x > key best")
    case True
    have "\<exists>i'<length ((pre @ [x]) @ xs). max_from key x xs = ((pre @ [x]) @ xs) ! i'
     \<and> (\<forall>j<length ((pre @ [x]) @ xs). key (((pre @ [x]) @ xs) ! j) \<le> key (((pre @ [x]) @ xs) ! i'))
     \<and> (\<forall>j<i'. key (((pre @ [x]) @ xs) ! j) < key (((pre @ [x]) @ xs) ! i'))"
    proof (rule Cons.IH[of "length pre" "pre @ [x]" x])
      show "length pre < length (pre @ [x])" by simp
      show "x = (pre @ [x]) ! length pre" by simp
      show "\<forall>j<length (pre @ [x]). key ((pre @ [x]) ! j) \<le> key ((pre @ [x]) ! length pre)"
        using True Cons.prems by (auto simp: nth_append less_Suc_eq intro: order_trans less_imp_le)
      show "\<forall>j<length pre. key ((pre @ [x]) ! j) < key ((pre @ [x]) ! length pre)"
        using True Cons.prems by (auto simp: nth_append intro: le_less_trans)
    qed
    then show ?thesis using True by simp
  next
    case False
    have "\<exists>i'<length ((pre @ [x]) @ xs). max_from key best xs = ((pre @ [x]) @ xs) ! i'
     \<and> (\<forall>j<length ((pre @ [x]) @ xs). key (((pre @ [x]) @ xs) ! j) \<le> key (((pre @ [x]) @ xs) ! i'))
     \<and> (\<forall>j<i'. key (((pre @ [x]) @ xs) ! j) < key (((pre @ [x]) @ xs) ! i'))"
    proof (rule Cons.IH[of i "pre @ [x]" best])
      show "i < length (pre @ [x])" using Cons.prems by simp
      show "best = (pre @ [x]) ! i" using Cons.prems by (simp add: nth_append)
      show "\<forall>j<length (pre @ [x]). key ((pre @ [x]) ! j) \<le> key ((pre @ [x]) ! i)"
        using False Cons.prems by (auto simp: nth_append less_Suc_eq)
      show "\<forall>j<i. key ((pre @ [x]) ! j) < key ((pre @ [x]) ! i)"
        using False Cons.prems by (auto simp: nth_append)
    qed
    then show ?thesis using False by simp
  qed
qed

lemma max_key_first_max:
  assumes "d \<noteq> []"
  shows "\<exists>i<length d. max_key d = Inr (fst (d ! i))
     \<and> (\<forall>j<length d. snd (d ! j) \<le> snd (d ! i))
     \<and> (\<forall>j<i. snd (d ! j) < snd (d ! i))"
proof -
  from assms obtain item items where d: "d = item # items" by (cases d) auto
  have "\<exists>i'<length ([item] @ items). max_from snd item items = ([item] @ items) ! i'
     \<and> (\<forall>j<length ([item] @ items). snd (([item] @ items) ! j) \<le> snd (([item] @ items) ! i'))
     \<and> (\<forall>j<i'. snd (([item] @ items) ! j) < snd (([item] @ items) ! i'))"
    by (rule max_from_first_max[of 0]) auto
  then show ?thesis by (auto simp: d max_key_def)
qed

lemma dict_get_init: "dict_get [(''agent1'', 0), (''agent2'', 0), (''router'', 0)] k 0 = 0"
  by (simp add: dict_get_def)

lemma usage_value:
  assumes "(k, c) \<in> set (count_agents [(''agent1'', 0), (''agent2'', 0), (''router'', 0)] messages)"
  shows "c = length (filter (\<lambda>m. counted m \<and> agent m = Some k) messages)"
proof -
  let ?u = "count_agents [(''agent1'', 0), (''agent2'', 0), (''router'', 0)] messages"
  have "distinct (map fst ?u)" by (rule count_agents_distinct) simp
  with assms have "map_of ?u k = Some c" by simp
  then show ?thesis
    unfolding count_agents_map_of dict_get_init by (auto split: if_splits)
qed

lemma usage_agent1:
  "map_of (count_agents [(''agent1'', 0), (''agent2'', 0), (''router'', 0)] messages) ''agent1''
     = Some (length (filter (\<lambda>m. counted m \<and> agent m = Some ''agent1'') messages))"
  unfolding count_agents_map_of dict_get_init by simp

lemma usage_agent2:
  "map_of (count_agents [(''agent1'', 0), (''agent2'', 0), (''router'', 0)] messages) ''agent2''
     = Some (length (filter (\<lambda>m. counted m \<and> agent m = Some ''agent2'') messages))"
  unfolding count_agents_map_of dict_get_init by simp

lemma usage_prefix:
  "take 3 (map fst (count_agents [(''agent1'', 0), (''agent2'', 0), (''router'', 0)] messages))
     = [''agent1'', ''agent2'', ''router'']"
  using count_agents_keys[of "[(''agent1'', 0), (''agent2'', 0), (''router'', 0)]" messages] by auto

lemma usage_nonempty:
  "count_agents [(''agent1'', 0), (''agent2'', 0), (''router'', 0)] messages \<noteq> []"
  using usage_prefix[of messages] by auto

lemma determine_conversation_type_usage:
  "determine_conversation_type (count_agents [(''agent1'', 0), (''agent2'', 0), (''router'', 0)] messages)
     = Inr (let issue = length (filter (\<lambda>m. counted m \<and> agent m = Some ''agent1'') messages);
                tenancy = length (filter (\<lambda>m. counted m \<and> agent m = Some ''agent2'') messages)
            in if issue > tenancy then ''issue_focused''
               else if tenancy > issue then ''tenancy_focused'' else ''mixed'')"
  by (simp add: determine_conversation_type_def usage_agent1 usage_agent2 Let_def)

text \<open>
  The dominant handler. The dictionary is created with the keys \<open>agent1\<close> (issue),
  \<open>agent2\<close> (tenancy), \<open>router\<close>, in this order. On an object on which
  \<open>_determine_conversation_type\<close> resolves and for a non-empty list of messages, the
  analysis returns; its first three keys are these; each count is the number of counted
  messages of that agent; and \<open>dominant_agent\<close> is the first key whose count is the
  maximum: every count is at most its count and every earlier count is smaller.
\<close>

theorem dominant_agent_first_maximum:
  assumes "getattr self ''_determine_conversation_type'' = Inr ()"
    and "messages \<noteq> []"
  shows "\<exists>r i. analyze_conversation_flow self messages = Inr r
     \<and> take 3 (map fst (agent_usage r)) = [''agent1'', ''agent2'', ''router'']
     \<and> distinct (map fst (agent_usage r))
     \<and> (\<forall>(k, c) \<in> set (agent_usage r).
           c = length (filter (\<lambda>m. counted m \<and> agent m = Some k) messages))
     \<and> i < length (agent_usage r) \<and> dominant_agent r = Some (fst (agent_usage r ! i))
     \<and> (\<forall>j < length (agent_usage r). snd (agent_usage r ! j) \<le> snd (agent_usage r ! i))
     \<and> (\<forall>j < i. snd (agent_usage r ! j) < snd (agent_usage r ! i))"
proof -
  let ?u = "count_agents [(''agent1'', 0), (''agent2'', 0), (''router'', 0)] messages"
  from max_key_first_max[OF usage_nonempty[of messages]] obtain i where
    i: "i < length ?u" "max_key ?u = Inr (fst (?u ! i))"
       "\<forall>j<length ?u. snd (?u ! j) \<le> snd (?u ! i)" "\<forall>j<i. snd (?u ! j) < snd (?u ! i)"
    by blast
  obtain flavour where f: "determine_conversation_type ?u = Inr flavour"
    using determine_conversation_type_usage[of messages] by simp
  let ?r = "\<lparr>agent_usage = ?u, total_messages = length messages,
             dominant_agent = Some (fst (?u ! i)), conversation_type = flavour\<rparr>"
  have "analyze_conversation_flow self messages = Inr ?r"
    using assms i(2) f by (simp add: analyze_conversation_flow_def Let_def)
  moreover have "distinct (map fst ?u)" by (rule count_agents_distinct) simp
  moreover have "\<forall>(k, c) \<in> set ?u. c = length (filter (\<lambda>m. counted m \<and> agent m = Some k) messages)"
    using usage_value by blast
  ultimately show ?thesis using i usage_prefix[of messages]
    by (intro exI[of _ ?r] exI[of _ i]) simp
qed

text \<open>A log of one router turn and then one issue turn: the tie goes to \<open>agent1\<close>.\<close>

theorem dominant_agent_first_maximum_witness:
  "analyze_conversation_flow bound_router
     [\<lparr>mtype = Some ''bot'', agent = Some ''router''\<rparr>,
      \<lparr>mtype = Some ''bot'', agent = Some ''agent1''\<rparr>]
   = Inr \<lparr>agent_usage = [(''agent1'', 1), (''agent2'', 0), (''router'', 1)],
          total_messages = 2, dominant_agent = Some ''agent1'',
          conversation_type = ''issue_focused''\<rparr>"
proof -
  have h: "[\<lparr>mtype = Some ''bot'', agent = Some ''router''\<rparr>,
            \<lparr>mtype = Some ''bot'', agent = Some ''agent1''\<rparr>] \<noteq> []"
    by simp
  from dominant_agent_first_maximum[OF getattr_bound_router(3) h]
  obtain r where
    "analyze_conversation_flow bound_router
       [\<lparr>mtype = Some ''bot'', agent = Some ''router''\<rparr>,
        \<lparr>mtype = Some ''bot'', agent = Some ''agent1''\<rparr>] = Inr r"
    by blast
  then show ?thesis
    by (auto simp: analyze_conversation_flow_def getattr_bound_router counted_def dict_get_def
        max_key_def determine_conversation_type_def)
qed

text \<open>
  The flavour. On an object on which \<open>_determine_conversation_type\<close> resolves and for a
  non-empty list, the flavour is \<open>issue_focused\<close> when the issue count exceeds the tenancy
  count, \<open>tenancy_focused\<close> when the tenancy count exceeds the issue count, and \<open>mixed\<close>
  otherwise; only these two counts enter. On the empty list it is \<open>empty\<close>, for every
  object.
\<close>

theorem conversation_type_nonempty:
  assumes "getattr self ''_determine_conversation_type'' = Inr ()"
    and "messages \<noteq> []"
  shows "(\<exists>r. analyze_conversation_flow self messages = Inr r
     \<and> conversation_type r =
        (let issue = length (filter (\<lambda>m. counted m \<and> agent m = Some ''agent1'') messages);
             tenancy = length (filter (\<lambda>m. counted m \<and> agent m = Some ''agent2'') messages)
         in if issue > tenancy then ''issue_focused''
            else if tenancy > issue then ''tenancy_focused'' else ''mixed''))
   \<and> analyze_conversation_flow self []
       = Inr \<lparr>agent_usage = [(''agent1'', 0), (''agent2'', 0), (''router'', 0)],
              total_messages = 0, dominant_agent = None, conversation_type = ''empty''\<rparr>"
proof -
  let ?u = "count_agents [(''agent1'', 0), (''agent2'', 0), (''router'', 0)] messages"
  from max_key_first_max[OF usage_nonempty[of messages]] obtain i where
    i: "max_key ?u = Inr (fst (?u ! i))" by blast
  show ?thesis
    using assms i determine_conversation_type_usage[of messages]
    by (simp add: analyze_conversation_flow_def Let_def)
qed

text \<open>Two router turns and one tenancy turn.\<close>

theorem conversation_type_nonempty_witness:
  "\<exists>r. analyze_conversation_flow bound_router
             [\<lparr>mtype = Some ''bot'', agent = Some ''router''\<rparr>,
              \<lparr>mtype = Some ''bot'', agent = Some ''router''\<rparr>,
              \<lparr>mtype = Some ''bot'', agent = Some ''agent2''\<rparr>] = Inr r
        \<and> conversation_type r = ''tenancy_focused''"
proof -
  have h: "[\<lparr>mtype = Some ''bot'', agent = Some ''router''\<rparr>,
            \<lparr>mtype = Some ''bot'', agent = Some ''router''\<rparr>,
            \<lparr>mtype = Some ''bot'', agent = Some ''agent2''\<rparr>] \<noteq> []"
    by simp
  from conversation_type_nonempty[OF getattr_bound_router(3) h] show ?thesis
    by (simp add: counted_def)
qed

text \<open>
  No counted turn. On an object on which \<open>_determine_conversation_type\<close> resolves: for a
  non-empty list in which no message is counted (user turns, bot turns without an agent)
  the counts stay 0, \<open>dominant_agent\<close> is the first key \<open>agent1\<close> and the flavour is
  \<open>mixed\<close>; the analysis returns for every list, and \<open>dominant_agent\<close> is \<open>None\<close> exactly
  when the list is empty.
\<close>

theorem dominant_agent_without_counted_turns:
  assumes "getattr self ''_determine_conversation_type'' = Inr ()"
  shows "(messages \<noteq> [] \<and> (\<forall>m \<in> set messages. \<not> counted m) \<longrightarrow>
      analyze_conversation_flow self messages =
        Inr \<lparr>agent_usage = [(''agent1'', 0), (''agent2'', 0), (''router'', 0)],
             total_messages = length messages, dominant_agent = Some ''agent1'',
             conversation_type = ''mixed''\<rparr>)
   \<and> (\<exists>r. analyze_conversation_flow self messages = Inr r
          \<and> (dominant_agent r = None \<longleftrightarrow> messages = []))"
proof (intro conjI impI)
  assume a: "messages \<noteq> [] \<and> (\<forall>m \<in> set messages. \<not> counted m)"
  then have "count_agents [(''agent1'', 0), (''agent2'', 0), (''router'', 0)] messages
      = [(''agent1'', 0), (''agent2'', 0), (''router'', 0)]"
    by (simp add: count_agents_uncounted)
  with a assms show "analyze_conversation_flow self messages =
        Inr \<lparr>agent_usage = [(''agent1'', 0), (''agent2'', 0), (''router'', 0)],
             total_messages = length messages, dominant_agent = Some ''agent1'',
             conversation_type = ''mixed''\<rparr>"
    by (simp add: analyze_conversation_flow_def max_key_def determine_conversation_type_def)
next
  show "\<exists>r. analyze_conversation_flow self messages = Inr r
          \<and> (dominant_agent r = None \<longleftrightarrow> messages = [])"
  proof (cases "messages = []")
    case True
    then show ?thesis by (simp add: analyze_conversation_flow_def)
  next
    case False
    let ?u = "count_agents [(''agent1'', 0), (''agent2'', 0), (''router'', 0)] messages"
    from max_key_first_max[OF usage_nonempty[of messages]] obtain i where
      i: "max_key ?u = Inr (fst (?u ! i))" by blast
    show ?thesis
      using False assms i determine_conversation_type_usage[of messages]
      by (simp add: analyze_conversation_flow_def Let_def)
  qed
qed

text \<open>A user turn and a bot turn whose agent is missing.\<close>

theorem dominant_agent_without_counted_turns_witness:
  "\<not> counted \<lparr>mtype = Some ''user'', agent = None\<rparr>
   \<and> \<not> counted \<lparr>mtype = Some ''bot'', agent = None\<rparr>
   \<and> analyze_conversation_flow bound_router
       [\<lparr>mtype = Some ''user'', agent = None\<rparr>, \<lparr>mtype = Some ''bot'', agent = None\<rparr>]
     = Inr \<lparr>agent_usage = [(''agent1'', 0), (''agent2'', 0), (''router'', 0)],
            total_messages = 2, dominant_agent = Some ''agent1'',
            conversation_type = ''mixed''\<rparr>"
  using dominant_agent_without_counted_turns
    [OF getattr_bound_router(3),
     of "[\<lparr>mtype = Some ''user'', agent = None\<rparr>, \<lparr>mtype = Some ''bot'', agent = None\<rparr>]"]
  by (simp add: counted_def)

section \<open>Properties of the tenancy agent\<close>

text \<open>
  C7. The claim: \<open>process_request\<close> never raises. The code builds the prompt before the
  \<open>try\<close>, and for a context that is not empty the prompt reads \<open>json.dumps\<close> in a module
  that never imports \<open>json\<close>: the call raises \<open>NameError\<close>, the model is never called and
  nothing is printed.
\<close>

theorem process_request_context_raises:
  "process_request gemini ''Can my landlord evict me?'' None
       (PyDict [(PyStr ''image'', PyObject ''bytes'')])
     = (Inl (NameError ''json''), [])"
  by (simp add: process_request_def build_gemini_prompt_def global_name_def
      tenancy_faq_agent_globals_def)

text \<open>
  Without a context (\<open>None\<close> or an empty dictionary) the prompt is built, and the body of
  \<open>process_request\<close> returns the model's answer with confidence 0.8, or, when the model
  call raises, prints the error and returns the apology with confidence 0.0.
\<close>

theorem process_request_without_context:
  assumes "\<not> truthy context"
  shows "\<exists>prompt. build_gemini_prompt text location context = Inr prompt
     \<and> process_request gemini text location context =
         (case gemini prompt of
            Inr gemini_response \<Rightarrow> (Inr (gemini_response, 0.8), [ModelCall prompt])
          | Inl e \<Rightarrow>
              (Inr (apology, 0.0),
               [ModelCall prompt, Printed (''Error calling Gemini API: '' @ error_text e)]))"
  using assms
  by (auto simp: process_request_def build_gemini_prompt_def parse_gemini_response_def Let_def
      split: option.splits sum.splits)

theorem process_request_without_context_witness:
  "\<not> truthy (PyDict [])
   \<and> fst (process_request (\<lambda>prompt. Inl (Raised ''timeout'')) ''Can my landlord evict me?''
            (Some ''Oslo'') (PyDict [])) = Inr (apology, 0.0)
   \<and> fst (process_request (\<lambda>prompt. Inr ''No.'') ''Can my landlord evict me?''
            (Some ''Oslo'') (PyDict [])) = Inr (''No.'', 0.8)"
proof -
  have h: "\<not> truthy (PyDict [])" by simp
  from process_request_without_context[OF h, of "''Can my landlord evict me?''" "Some ''Oslo''"
      "\<lambda>prompt. Inl (Raised ''timeout'')"]
    process_request_without_context[OF h, of "''Can my landlord evict me?''" "Some ''Oslo''"
      "\<lambda>prompt. Inr ''No.''"]
  show ?thesis by auto
qed

section \<open>The body of the follow-up questions\<close>

lemma questions_db_length:
  "map_of questions_db issue_type = Some questions \<Longrightarrow> length questions = 4"
  by (auto simp: questions_db_def split: if_splits)

text \<open>
  The body of \<open>get_follow_up_questions\<close>. The result is the base list (the list of a known issue type, the three generic
  questions otherwise), then the three escalation questions if the severity is
  \<open>severe\<close>, cut to five entries after the append; without \<open>severe\<close> it is the base list
  itself. For \<open>water_damage\<close> and \<open>severe\<close> it is the four water-damage questions and
  then the first escalation question.
\<close>

theorem get_follow_up_questions_order:
  "get_follow_up_questions issue_type severity =
     take 5 ((case map_of questions_db issue_type of
                None \<Rightarrow> generic_questions | Some questions \<Rightarrow> questions)
             @ (if severity = ''severe'' then severe_questions else []))
   \<and> get_follow_up_questions issue_type severity =
     (if severity = ''severe''
      then take 5 ((case map_of questions_db issue_type of
                      None \<Rightarrow> generic_questions | Some questions \<Rightarrow> questions)
                   @ severe_questions)
      else (case map_of questions_db issue_type of
              None \<Rightarrow> generic_questions | Some questions \<Rightarrow> questions))
   \<and> length generic_questions = 3 \<and> length severe_questions = 3
   \<and> length (get_follow_up_questions issue_type severity) \<le> 5
   \<and> get_follow_up_questions ''water_damage'' ''severe'' =
       [''Is the water damage still actively spreading?'',
        ''Can you locate the source of the water?'',
        ''Is there a musty odor in the area?'',
        ''How long has this damage been present?'',
        ''Do you need emergency professional assistance?'']"
proof -
  have base: "length (case map_of questions_db issue_type of
                None \<Rightarrow> generic_questions | Some questions \<Rightarrow> questions) \<le> 5"
    by (auto simp: generic_questions_def dest: questions_db_length split: option.splits)
  have water: "get_follow_up_questions ''water_damage'' ''severe'' =
       [''Is the water damage still actively spreading?'',
        ''Can you locate the source of the water?'',
        ''Is there a musty odor in the area?'',
        ''How long has this damage been present?'',
        ''Do you need emergency professional assistance?'']"
    by (simp add: get_follow_up_questions_def questions_db_def severe_questions_def)
  have "length generic_questions = 3" "length severe_questions = 3"
    by (simp_all add: generic_questions_def severe_questions_def)
  then show ?thesis using base water
    by (simp add: get_follow_up_questions_def Let_def)
qed

end
